theory Spec2Isabelle
  imports Main
begin

section \<open>The record tree\<close>

text \<open>
  A pointer to a node is \<open>None\<close> (the C \<open>NULL\<close>) or the address of a node.  The tree
  lives in a store \<open>nat \<Rightarrow> SGFNode\<close> that navigation only reads.
\<close>

type_synonym ptr = "nat option"

text \<open>
  Modelled from the spec: the declaration of \<open>SGFNode\<close> and \<open>SGFProperty\<close> (sgftree.h) is
  not part of the sources.  The record has the fields that gogame.c reads: the property
  list (each property a two-character name and a value), \<open>parent\<close>, \<open>child\<close> (the first
  child, the spec's main child), \<open>next\<close> (here \<open>next_ptr\<close>: the following child of the
  same parent, a variation), the variation chain \<open>prevVar\<close>/\<open>nextVar\<close>, the drawing level
  \<open>draw_lvl\<close> (the spec's render rank) and \<open>move_num\<close> (the spec's ply index).  The C
  \<open>int\<close> fields are only compared, never computed with, so they are integers here.
\<close>

record SGFNode =
  props :: "(string \<times> string) list"
  parent :: ptr
  child :: ptr
  next_ptr :: ptr
  prevVar :: ptr
  nextVar :: ptr
  draw_lvl :: int
  move_num :: int

text \<open>
  Modelled from the spec: \<open>sgfGetCharProperty\<close> (sgftree) is not part of the sources.  It
  yields the value of the first property of the node with the given name, if there is
  one; with the name \<open>''C ''\<close> this is the annotation of the node.
\<close>

definition sgfGetCharProperty :: "SGFNode \<Rightarrow> string \<Rightarrow> string option" where
  "sgfGetCharProperty nd name = map_of (props nd) name"

section \<open>The board projection\<close>

datatype colour = BOARD_BLACK | BOARD_WHITE

datatype marker = MARK_SQUARE | MARK_CIRC | MARK_TRIANGLE

text \<open>
  One command on the board: a call of \<open>board_placeStone\<close> or \<open>board_placeMarker\<close>.  The
  coordinates are \<open>get_moveX\<close> and \<open>get_moveY\<close> of the property and the board size; the
  command keeps the property value they are computed from.  The flag of \<open>PlaceStone\<close> is
  the last argument of \<open>board_placeStone\<close> (0 for an added stone, 1 for a move).
\<close>

datatype cmd = PlaceStone string colour bool | PlaceMarker string marker

text \<open>
  Modelled from the spec: the board module (\<open>board_new\<close>, \<open>board_placeStone\<close>,
  \<open>board_placeMarker\<close>, \<open>board_undo\<close>) is not part of the sources.  The spec describes it
  as a history stack whose \<open>undo\<close> pops one frame, restores the board before it and
  reports failure when there is no frame to pop.  The calls that gogame.c makes on the
  board are \<open>board_placeStone\<close> and \<open>board_placeMarker\<close>, one for each command, so each
  of them applies its command and pushes one undo frame.  The board is the stack of
  the commands applied and not undone, the newest first.
\<close>

type_synonym board = "cmd list"

definition board_new :: board where
  "board_new = []"

definition board_placeStone :: "string \<Rightarrow> colour \<Rightarrow> bool \<Rightarrow> board \<Rightarrow> board" where
  "board_placeStone v col bIsMove b = PlaceStone v col bIsMove # b"

definition board_placeMarker :: "string \<Rightarrow> marker \<Rightarrow> board \<Rightarrow> board" where
  "board_placeMarker v m b = PlaceMarker v m # b"

fun board_undo :: "board \<Rightarrow> bool \<times> board" where
  "board_undo [] = (False, [])"
| "board_undo (fr # b) = (True, b)"

text \<open>The accumulated state of the board: every command applied and not undone, oldest first.\<close>

definition board_state :: "board \<Rightarrow> cmd list" where
  "board_state b = rev b"

text \<open>
  The commands of a node, in the words of the spec's data model: the board commands of
  its properties, in the order of the properties.  A property that
  \<open>apply_sgf_cmds_to_board\<close> does not handle (a comment, the board size) is no command.
\<close>

fun prop_cmd :: "string \<times> string \<Rightarrow> cmd option" where
  "prop_cmd (name, v) =
     (if name = ''AB'' then Some (PlaceStone v BOARD_BLACK False)
      else if name = ''AW'' then Some (PlaceStone v BOARD_WHITE False)
      else if name = ''B '' then Some (PlaceStone v BOARD_BLACK True)
      else if name = ''W '' then Some (PlaceStone v BOARD_WHITE True)
      else if name = ''SQ'' then Some (PlaceMarker v MARK_SQUARE)
      else if name = ''CR'' then Some (PlaceMarker v MARK_CIRC)
      else if name = ''TR'' then Some (PlaceMarker v MARK_TRIANGLE)
      else None)"

definition node_cmds :: "SGFNode \<Rightarrow> cmd list" where
  "node_cmds nd = List.map_filter prop_cmd (props nd)"

section \<open>The viewer state\<close>

text \<open>
  The two primitives of the spec: \<open>Apply\<close> is one run of \<open>apply_sgf_cmds_to_board\<close> (the
  spec's apply of one node), \<open>Undo\<close> one call of \<open>board_undo\<close>.  The viewer logs them,
  the newest first.
\<close>

datatype prim = Apply | Undo

text \<open>
  The two ways an operation can stop without returning: a failed \<open>assert\<close>, which
  aborts the program, and the dereference of a \<open>NULL\<close> pointer.
\<close>

datatype error = AssertionFailed | NullDereference

text \<open>
  The file-level variables of gogame.c that navigation touches.  \<open>gameTree\<close> is \<open>None\<close>
  when no record is loaded and holds the root otherwise.  The C \<open>int\<close>s that are only
  ever 0 or 1 (\<open>comment_update\<close>, \<open>bShowFullScreenComment\<close>, the \<open>bUpdate\<close> arguments and
  the result of \<open>gogame_move_to_page\<close>) are booleans.  \<open>nodes\<close> is the memory that
  holds the tree, and \<open>board\<close> the state of the board module.  \<open>calls\<close> is not in the
  source: it logs every run of \<open>apply_sgf_cmds_to_board\<close> and every call of \<open>board_undo\<close>.
\<close>

record viewer =
  gameTree :: ptr
  curNode :: ptr
  comment_str :: "string option"
  comment_update :: bool
  bShowFullScreenComment :: bool
  nodes :: "nat \<Rightarrow> SGFNode"
  board :: board
  calls :: "prim list"

text \<open>
  A \<open>while\<close> loop whose condition and body may fail.  A loop that runs forever has the
  value \<open>None\<close>.
\<close>

partial_function (option) while_loop ::
  "('s \<Rightarrow> error + bool) \<Rightarrow> ('s \<Rightarrow> error + 's) \<Rightarrow> 's \<Rightarrow> (error + 's) option" where
  "while_loop c b s =
     (case c s of
        Inl e \<Rightarrow> Some (Inl e)
      | Inr continue \<Rightarrow>
          if continue then (case b s of Inl e \<Rightarrow> Some (Inl e) | Inr s' \<Rightarrow> while_loop c b s')
          else Some (Inr s))"

declare while_loop.simps [code]

section \<open>The operations of gogame.c\<close>

definition updateCommentStr :: "viewer \<Rightarrow> error + viewer" where
  "updateCommentStr s =
     (if gameTree s = None then Inl AssertionFailed
      else case curNode s of
        None \<Rightarrow> Inl AssertionFailed
      | Some c \<Rightarrow>
          (case sgfGetCharProperty (nodes s c) ''C '' of
             None \<Rightarrow>
               if comment_str s \<noteq> None
               then Inr (s\<lparr>comment_str := None, comment_update := True\<rparr>)
               else Inr (s\<lparr>comment_update := False\<rparr>)
           | Some msg \<Rightarrow> Inr (s\<lparr>comment_str := Some msg, comment_update := True\<rparr>)))"

text \<open>
  The body of the loop of \<open>apply_sgf_cmds_to_board\<close>: the \<open>switch\<close> on the name of one
  property, which makes one call on the board or none.
\<close>

fun prop_call :: "string \<times> string \<Rightarrow> board \<Rightarrow> board" where
  "prop_call (name, v) b =
     (if name = ''AB'' then board_placeStone v BOARD_BLACK False b
      else if name = ''AW'' then board_placeStone v BOARD_WHITE False b
      else if name = ''B '' then board_placeStone v BOARD_BLACK True b
      else if name = ''W '' then board_placeStone v BOARD_WHITE True b
      else if name = ''SQ'' then board_placeMarker v MARK_SQUARE b
      else if name = ''CR'' then board_placeMarker v MARK_CIRC b
      else if name = ''TR'' then board_placeMarker v MARK_TRIANGLE b
      else b)"

text \<open>
  \<open>apply_sgf_cmds_to_board\<close> runs the loop over the properties of the current node.  For
  a node without a stone or marker property it makes no call on the board.
\<close>

definition apply_sgf_cmds_to_board :: "viewer \<Rightarrow> error + viewer" where
  "apply_sgf_cmds_to_board s =
     (if gameTree s = None then Inl AssertionFailed
      else case curNode s of
        None \<Rightarrow> Inl NullDereference
      | Some c \<Rightarrow>
          Inr (s\<lparr>board := fold prop_call (props (nodes s c)) (board s),
                 calls := Apply # calls s\<rparr>))"

definition gogame_move_forward_update :: "bool \<Rightarrow> viewer \<Rightarrow> error + viewer" where
  "gogame_move_forward_update bUpdate s =
     (if gameTree s = None then Inr s
      else if bShowFullScreenComment s then Inr s
      else case curNode s of
        None \<Rightarrow> Inl NullDereference
      | Some c \<Rightarrow>
          (case child (nodes s c) of
             None \<Rightarrow> Inr s
           | Some k \<Rightarrow>
               (case apply_sgf_cmds_to_board (s\<lparr>curNode := Some k\<rparr>) of
                  Inl e \<Rightarrow> Inl e
                | Inr s1 \<Rightarrow> if bUpdate then updateCommentStr s1 else Inr s1)))"

definition gogame_move_forward :: "viewer \<Rightarrow> error + viewer" where
  "gogame_move_forward s = gogame_move_forward_update True s"

text \<open>
  The statement \<open>if (board_undo()) curNode = curNode->parent;\<close>, which
  \<open>gogame_move_back_update\<close> and \<open>undo_variation\<close> share.
\<close>

definition undo_step :: "viewer \<Rightarrow> error + viewer" where
  "undo_step s =
     (case board_undo (board s) of
        (ok, b) \<Rightarrow>
          let s1 = s\<lparr>board := b, calls := Undo # calls s\<rparr> in
          if ok then
            (case curNode s1 of
               None \<Rightarrow> Inl NullDereference
             | Some c \<Rightarrow> Inr (s1\<lparr>curNode := parent (nodes s1 c)\<rparr>))
          else Inr s1)"

definition gogame_move_back_update :: "bool \<Rightarrow> viewer \<Rightarrow> error + viewer" where
  "gogame_move_back_update bUpdate s =
     (if gameTree s = None then Inr s
      else if bShowFullScreenComment s then Inr s
      else case undo_step s of
        Inl e \<Rightarrow> Inl e
      | Inr s1 \<Rightarrow> if bUpdate then updateCommentStr s1 else Inr s1)"

definition gogame_move_back :: "viewer \<Rightarrow> error + viewer" where
  "gogame_move_back s = gogame_move_back_update True s"

subsection \<open>Switching to another variation\<close>

text \<open>
  The first loop of \<open>undo_variation\<close>.  Its state is \<open>srcNode_i\<close>, \<open>targetNode_i\<close>, the
  recorded path and the viewer.  The source records the path in a chain of fresh nodes
  whose \<open>next\<close> field holds the recorded node, the newest at the top; the list
  \<open>pathToTarget\<close> holds the recorded nodes, the newest first.
\<close>

definition undo_variation_cond :: "ptr \<times> ptr \<times> nat list \<times> viewer \<Rightarrow> error + bool" where
  "undo_variation_cond st =
     (case st of (srcNode_i, targetNode_i, pathToTarget, s) \<Rightarrow>
        Inr (srcNode_i \<noteq> None \<and> targetNode_i \<noteq> None \<and> srcNode_i \<noteq> targetNode_i))"

definition undo_variation_body ::
  "ptr \<times> ptr \<times> nat list \<times> viewer \<Rightarrow> error + ptr \<times> ptr \<times> nat list \<times> viewer" where
  "undo_variation_body st =
     (case st of (srcNode_i, targetNode_i, pathToTarget, s) \<Rightarrow>
        (case undo_step s of
           Inl e \<Rightarrow> Inl e
         | Inr s1 \<Rightarrow>
             (case (srcNode_i, targetNode_i) of
                (Some a, Some b) \<Rightarrow>
                  Inr (parent (nodes s1 a), parent (nodes s1 b), b # pathToTarget, s1)
              | _ \<Rightarrow> Inl NullDereference)))"

text \<open>The second loop of \<open>undo_variation\<close>: replay the recorded path, the newest entry first.\<close>

fun replay_path :: "nat list \<Rightarrow> viewer \<Rightarrow> error + viewer" where
  "replay_path [] s = Inr s"
| "replay_path (n # pathToTarget) s =
     (case apply_sgf_cmds_to_board (s\<lparr>curNode := Some n\<rparr>) of
        Inl e \<Rightarrow> Inl e
      | Inr s1 \<Rightarrow> replay_path pathToTarget s1)"

definition undo_variation :: "ptr \<Rightarrow> ptr \<Rightarrow> viewer \<Rightarrow> (error + viewer) option" where
  "undo_variation srcNode targetNode s =
     (if srcNode = None \<or> targetNode = None then Some (Inl AssertionFailed)
      else case while_loop undo_variation_cond undo_variation_body (srcNode, targetNode, [], s) of
        None \<Rightarrow> None
      | Some (Inl e) \<Rightarrow> Some (Inl e)
      | Some (Inr (srcNode_i, targetNode_i, pathToTarget, s1)) \<Rightarrow>
          if srcNode_i = None \<or> targetNode_i = None then Some (Inl AssertionFailed)
          else Some (replay_path pathToTarget s1))"

text \<open>The loop \<open>while (ndCur->prevVar) ndCur = ndCur->prevVar;\<close> on the pointer \<open>ndCur\<close>.\<close>

definition var_head_cond :: "(nat \<Rightarrow> SGFNode) \<Rightarrow> ptr \<Rightarrow> error + bool" where
  "var_head_cond h ndCur =
     (case ndCur of None \<Rightarrow> Inl NullDereference | Some n \<Rightarrow> Inr (prevVar (h n) \<noteq> None))"

definition var_head_body :: "(nat \<Rightarrow> SGFNode) \<Rightarrow> ptr \<Rightarrow> error + ptr" where
  "var_head_body h ndCur =
     (case ndCur of None \<Rightarrow> Inl NullDereference | Some n \<Rightarrow> Inr (prevVar (h n)))"

text \<open>
  The \<open>for\<close> loops over the variation chain.  Their state is \<open>ndCur\<close>, \<open>lvl\<close> and the
  node chosen so far; \<open>cl\<close> is \<open>curNode->draw_lvl\<close>.
\<close>

definition var_scan_cond :: "ptr \<times> int \<times> ptr \<Rightarrow> error + bool" where
  "var_scan_cond st = (case st of (ndCur, lvl, nd) \<Rightarrow> Inr (ndCur \<noteq> None))"

definition var_down_body ::
  "(nat \<Rightarrow> SGFNode) \<Rightarrow> int \<Rightarrow> ptr \<times> int \<times> ptr \<Rightarrow> error + ptr \<times> int \<times> ptr" where
  "var_down_body h cl st =
     (case st of (ndCur, lvl, ndNextVar) \<Rightarrow>
        (case ndCur of
           None \<Rightarrow> Inl NullDereference
         | Some n \<Rightarrow>
             if draw_lvl (h n) > cl \<and> draw_lvl (h n) < lvl
             then Inr (nextVar (h n), draw_lvl (h n), Some n)
             else Inr (nextVar (h n), lvl, ndNextVar)))"

definition var_up_body ::
  "(nat \<Rightarrow> SGFNode) \<Rightarrow> int \<Rightarrow> ptr \<times> int \<times> ptr \<Rightarrow> error + ptr \<times> int \<times> ptr" where
  "var_up_body h cl st =
     (case st of (ndCur, lvl, ndPrevVar) \<Rightarrow>
        (case ndCur of
           None \<Rightarrow> Inl NullDereference
         | Some n \<Rightarrow>
             if draw_lvl (h n) < cl \<and> draw_lvl (h n) > lvl
             then Inr (nextVar (h n), draw_lvl (h n), Some n)
             else Inr (nextVar (h n), lvl, ndPrevVar)))"

text \<open>
  What \<open>gogame_moveVar_down\<close> and \<open>gogame_moveVar_up\<close> share: walk to the head of the
  chain, scan the chain with the given body from the given start level, and switch to
  the node chosen, if there is one.
\<close>

definition moveVar ::
  "((nat \<Rightarrow> SGFNode) \<Rightarrow> int \<Rightarrow> ptr \<times> int \<times> ptr \<Rightarrow> error + ptr \<times> int \<times> ptr) \<Rightarrow> int \<Rightarrow>
     viewer \<Rightarrow> (error + viewer) option" where
  "moveVar body lvl0 s =
     (if gameTree s = None then Some (Inr s)
      else if bShowFullScreenComment s then Some (Inr s)
      else case while_loop (var_head_cond (nodes s)) (var_head_body (nodes s)) (curNode s) of
        None \<Rightarrow> None
      | Some (Inl e) \<Rightarrow> Some (Inl e)
      | Some (Inr ndHead) \<Rightarrow>
          (case curNode s of
             None \<Rightarrow> Some (Inl NullDereference)
           | Some c \<Rightarrow>
               (case while_loop var_scan_cond (body (nodes s) (draw_lvl (nodes s c)))
                       (ndHead, lvl0, None) of
                  None \<Rightarrow> None
                | Some (Inl e) \<Rightarrow> Some (Inl e)
                | Some (Inr (ndCur, lvl, ndVar)) \<Rightarrow>
                    if ndVar = None then Some (Inr s)
                    else (case undo_variation (curNode s) ndVar s of
                            None \<Rightarrow> None
                          | Some (Inl e) \<Rightarrow> Some (Inl e)
                          | Some (Inr s1) \<Rightarrow> Some (updateCommentStr s1)))))"

definition gogame_moveVar_down :: "viewer \<Rightarrow> (error + viewer) option" where
  "gogame_moveVar_down s = moveVar var_down_body 20000 s"

definition gogame_moveVar_up :: "viewer \<Rightarrow> (error + viewer) option" where
  "gogame_moveVar_up s = moveVar var_up_body (- 20000) s"

subsection \<open>Skipping to the next and the previous event\<close>

definition nextEvt_cond :: "viewer \<Rightarrow> error + bool" where
  "nextEvt_cond s =
     (case curNode s of
        None \<Rightarrow> Inl NullDereference
      | Some c \<Rightarrow>
          Inr (child (nodes s c) \<noteq> None \<and> next_ptr (nodes s c) = None
               \<and> sgfGetCharProperty (nodes s c) ''C '' = None))"

definition gogame_move_to_nextEvt :: "viewer \<Rightarrow> (error + viewer) option" where
  "gogame_move_to_nextEvt s =
     (if gameTree s = None then Some (Inr s)
      else if bShowFullScreenComment s then Some (Inr s)
      else case gogame_move_forward_update False s of
        Inl e \<Rightarrow> Some (Inl e)
      | Inr s1 \<Rightarrow>
          (case while_loop nextEvt_cond (gogame_move_forward_update False) s1 of
             None \<Rightarrow> None
           | Some (Inl e) \<Rightarrow> Some (Inl e)
           | Some (Inr s2) \<Rightarrow> Some (updateCommentStr s2)))"

text \<open>
  The condition \<open>curNode->parent && curNode->next == NULL &&
  curNode->parent->child->next == NULL && !sgfGetCharProperty(curNode, "C ", &msg)\<close>,
  evaluated from left to right.
\<close>

definition prevEvt_cond :: "viewer \<Rightarrow> error + bool" where
  "prevEvt_cond s =
     (case curNode s of
        None \<Rightarrow> Inl NullDereference
      | Some c \<Rightarrow>
          (case parent (nodes s c) of
             None \<Rightarrow> Inr False
           | Some p \<Rightarrow>
               if next_ptr (nodes s c) \<noteq> None then Inr False
               else (case child (nodes s p) of
                       None \<Rightarrow> Inl NullDereference
                     | Some k \<Rightarrow>
                         Inr (next_ptr (nodes s k) = None
                              \<and> sgfGetCharProperty (nodes s c) ''C '' = None))))"

definition gogame_move_to_prevEvt :: "viewer \<Rightarrow> (error + viewer) option" where
  "gogame_move_to_prevEvt s =
     (if gameTree s = None then Some (Inr s)
      else if bShowFullScreenComment s then Some (Inr s)
      else case gogame_move_back_update False s of
        Inl e \<Rightarrow> Some (Inl e)
      | Inr s1 \<Rightarrow>
          (case while_loop prevEvt_cond (gogame_move_back_update False) s1 of
             None \<Rightarrow> None
           | Some (Inl e) \<Rightarrow> Some (Inl e)
           | Some (Inr s2) \<Rightarrow> Some (updateCommentStr s2)))"

subsection \<open>Jumping to a move number\<close>

definition page_back_cond :: "int \<Rightarrow> viewer \<Rightarrow> error + bool" where
  "page_back_cond page s =
     (case curNode s of
        None \<Rightarrow> Inl NullDereference
      | Some c \<Rightarrow> Inr (parent (nodes s c) \<noteq> None \<and> page < move_num (nodes s c)))"

definition page_forward_cond :: "int \<Rightarrow> viewer \<Rightarrow> error + bool" where
  "page_forward_cond page s =
     (case curNode s of
        None \<Rightarrow> Inl NullDereference
      | Some c \<Rightarrow> Inr (child (nodes s c) \<noteq> None \<and> page > move_num (nodes s c)))"

definition gogame_move_to_page :: "int \<Rightarrow> viewer \<Rightarrow> (error + bool \<times> viewer) option" where
  "gogame_move_to_page page s =
     (if gameTree s = None then Some (Inr (False, s))
      else if bShowFullScreenComment s then Some (Inr (False, s))
      else case curNode s of
        None \<Rightarrow> Some (Inr (False, s))
      | Some c \<Rightarrow>
          if page = move_num (nodes s c) then Some (Inr (False, s))
          else
            (case (if page < move_num (nodes s c)
                   then while_loop (page_back_cond page) (gogame_move_back_update False) s
                   else if page > move_num (nodes s c)
                   then while_loop (page_forward_cond page) (gogame_move_forward_update False) s
                   else Some (Inr s)) of
               None \<Rightarrow> None
             | Some (Inl e) \<Rightarrow> Some (Inl e)
             | Some (Inr s1) \<Rightarrow>
                 (case updateCommentStr s1 of
                    Inl e \<Rightarrow> Some (Inl e)
                  | Inr s2 \<Rightarrow> Some (Inr (True, s2)))))"

subsection \<open>The public navigation operations\<close>

datatype nav_op = Forward | Back | VarDown | VarUp | NextEvt | PrevEvt | ToPage int

fun run_op :: "nav_op \<Rightarrow> viewer \<Rightarrow> (error + viewer) option" where
  "run_op Forward s = Some (gogame_move_forward s)"
| "run_op Back s = Some (gogame_move_back s)"
| "run_op VarDown s = gogame_moveVar_down s"
| "run_op VarUp s = gogame_moveVar_up s"
| "run_op NextEvt s = gogame_move_to_nextEvt s"
| "run_op PrevEvt s = gogame_move_to_prevEvt s"
| "run_op (ToPage page) s = map_option (map_sum id snd) (gogame_move_to_page page s)"

subsection \<open>Loading a record\<close>

text \<open>
  \<open>gogame_cleanup\<close> and \<open>gogame_new_from_file\<close>, as far as they touch the variables of
  the viewer.  The parser \<open>sgftree_readfile\<close> is not part of the sources: its result is the
  argument \<open>parsed\<close>, the store and the root of the tree it built, or \<open>None\<close> when it
  fails.  A failing \<open>malloc\<close> is left out.  When the parser fails, \<open>gameTree\<close> has just
  been allocated, so the second \<open>gogame_cleanup\<close> resets the variables whatever the state
  was before.  The result is the return code and the new state.
\<close>

definition gogame_cleanup :: "viewer \<Rightarrow> viewer" where
  "gogame_cleanup s =
     (if gameTree s \<noteq> None
      then s\<lparr>gameTree := None, curNode := None, bShowFullScreenComment := False,
             board := board_new\<rparr>
      else s)"

definition gogame_new_from_file ::
  "((nat \<Rightarrow> SGFNode) \<times> nat) option \<Rightarrow> viewer \<Rightarrow> error + int \<times> viewer" where
  "gogame_new_from_file parsed s =
     (case parsed of
        None \<Rightarrow>
          Inr (2, (gogame_cleanup s)\<lparr>gameTree := None, curNode := None,
                    bShowFullScreenComment := False, board := board_new\<rparr>)
      | Some (h, r) \<Rightarrow>
          (case apply_sgf_cmds_to_board
                  ((gogame_cleanup s)\<lparr>gameTree := Some r, nodes := h, curNode := Some r,
                                       board := board_new\<rparr>) of
             Inl e \<Rightarrow> Inl e
           | Inr s1 \<Rightarrow>
               (case updateCommentStr s1 of
                  Inl e \<Rightarrow> Inl e
                | Inr s2 \<Rightarrow> Inr (0, s2\<lparr>bShowFullScreenComment := False\<rparr>))))"

section \<open>A small record\<close>

text \<open>
  The root 0 has the children 1 (main line) and 2 (a variation); 1 is followed by 3 and
  4, and 2 by 5.  The nodes 1 and 2 form one variation chain, 3 and 5 another.  The
  nodes 2 and 4 carry a comment.
\<close>

definition no_node :: SGFNode where
  "no_node = \<lparr>props = [], parent = None, child = None, next_ptr = None, prevVar = None,
              nextVar = None, draw_lvl = 0, move_num = 0\<rparr>"

definition ex_nodes :: "nat \<Rightarrow> SGFNode" where
  "ex_nodes n =
     (if n = 0 then no_node\<lparr>props := [(''SZ'', ''19'')], child := Some 1\<rparr>
      else if n = 1 then
        no_node\<lparr>props := [(''B '', ''pd'')], parent := Some 0, child := Some 3,
                next_ptr := Some 2, nextVar := Some 2, move_num := 1\<rparr>
      else if n = 2 then
        no_node\<lparr>props := [(''B '', ''dp''), (''C '', ''a variation'')], parent := Some 0,
                child := Some 5, prevVar := Some 1, draw_lvl := 1, move_num := 1\<rparr>
      else if n = 3 then
        no_node\<lparr>props := [(''W '', ''dd'')], parent := Some 1, child := Some 4,
                nextVar := Some 5, move_num := 2\<rparr>
      else if n = 4 then
        no_node\<lparr>props := [(''B '', ''pp''), (''C '', ''good move'')], parent := Some 3,
                move_num := 3\<rparr>
      else if n = 5 then
        no_node\<lparr>props := [(''W '', ''pp'')], parent := Some 2, prevVar := Some 3,
                draw_lvl := 1, move_num := 2\<rparr>
      else no_node)"

text \<open>The viewer before any record is loaded, and after loading the small record.\<close>

definition ex_empty :: viewer where
  "ex_empty = \<lparr>gameTree = None, curNode = None, comment_str = None, comment_update = False,
               bShowFullScreenComment = False, nodes = (\<lambda>n. no_node), board = [],
               calls = []\<rparr>"

definition ex_loaded :: viewer where
  "ex_loaded = \<lparr>gameTree = Some 0, curNode = Some 0, comment_str = None,
                comment_update = False, bShowFullScreenComment = False, nodes = ex_nodes,
                board = [], calls = [Apply]\<rparr>"


subsection \<open>A record with a comment node\<close>





subsection \<open>A record with a handicap stone\<close>

text \<open>The root 0 carries an added stone and is followed by the move 1.\<close>

definition hc_nodes :: "nat \<Rightarrow> SGFNode" where
  "hc_nodes n =
     (if n = 0 then no_node\<lparr>props := [(''AB'', ''dd'')], child := Some 1\<rparr>
      else if n = 1 then no_node\<lparr>props := [(''W '', ''pd'')], parent := Some 0, move_num := 1\<rparr>
      else no_node)"

definition hc_loaded :: viewer where
  "hc_loaded = \<lparr>gameTree = Some 0, curNode = Some 0, comment_str = None,
                comment_update = False, bShowFullScreenComment = False, nodes = hc_nodes,
                board = [PlaceStone ''dd'' BOARD_BLACK False], calls = [Apply]\<rparr>"

subsection \<open>A record with a fork on the main line\<close>



section \<open>Paths in the tree\<close>

text \<open>
  \<open>ptr_path f h n xs\<close>: following the pointer field \<open>f\<close> from node \<open>n\<close> visits exactly
  the nodes \<open>xs\<close>, \<open>n\<close> first, and ends on a node whose field is \<open>NULL\<close>.  With \<open>parent\<close>
  it is the path from a node up to the root, with \<open>child\<close> the main line below a node.
\<close>

fun ptr_path :: "(SGFNode \<Rightarrow> ptr) \<Rightarrow> (nat \<Rightarrow> SGFNode) \<Rightarrow> nat \<Rightarrow> nat list \<Rightarrow> bool" where
  "ptr_path f h n [] = False"
| "ptr_path f h n [x] = (x = n \<and> f (h n) = None)"
| "ptr_path f h n (x # y # ys) = (x = n \<and> f (h n) = Some y \<and> ptr_path f h y (y # ys))"


section \<open>Events\<close>







section \<open>Well-formed trees and the consistency of the board\<close>




text \<open>
  A node is one step of the board when it carries exactly one command, so that the one
  \<open>undo\<close> of a step back takes back what the step forward applied; the root, from which
  no step leads back, carries none.
\<close>

definition one_frame :: "(nat \<Rightarrow> SGFNode) \<Rightarrow> nat \<Rightarrow> bool" where
  "one_frame h n \<longleftrightarrow>
     length (node_cmds (h n)) = (if parent (h n) = None then 0 else 1)"

definition one_frame_nodes :: "(nat \<Rightarrow> SGFNode) \<Rightarrow> nat list \<Rightarrow> bool" where
  "one_frame_nodes h ns \<longleftrightarrow> list_all (one_frame h) ns"

text \<open>The stack of the board after applying the nodes of a path, the last node first.\<close>

definition frames_of :: "(nat \<Rightarrow> SGFNode) \<Rightarrow> nat list \<Rightarrow> cmd list" where
  "frames_of h ps = concat (map (\<lambda>n. rev (node_cmds (h n))) ps)"

text \<open>
  Invariant I3 for a viewer that has the tree \<open>h\<close>, \<open>r\<close>, \<open>ns\<close> loaded: the cursor is on a
  node of the tree, and the accumulated state of the board is the commands of the nodes
  on the path from the root to the cursor, in that order.  The frames of the board
  match the nodes of the path: every node of the path is one step of the board.
\<close>

definition projection_ok :: "(nat \<Rightarrow> SGFNode) \<Rightarrow> nat \<Rightarrow> nat list \<Rightarrow> viewer \<Rightarrow> bool" where
  "projection_ok h r ns s \<longleftrightarrow>
     gameTree s = Some r \<and> nodes s = h \<and>
     (\<exists>c ps. curNode s = Some c \<and> c \<in> set ns \<and> ptr_path parent h c ps \<and> last ps = r \<and>
        list_all (one_frame h) ps \<and> board s = frames_of h ps \<and>
        board_state (board s) = concat (map (\<lambda>n. node_cmds (h n)) (rev ps)))"

section \<open>Loops and paths\<close>



lemma while_loop_cond_error: "c s = Inl e \<Longrightarrow> while_loop c b s = Some (Inl e)"
  by (subst while_loop.simps) simp

lemma while_loop_body_error:
  "c s = Inr True \<Longrightarrow> b s = Inl e \<Longrightarrow> while_loop c b s = Some (Inl e)"
  by (subst while_loop.simps) simp








section \<open>Single steps\<close>

lemmas ex_defs = ex_loaded_def ex_nodes_def no_node_def ex_empty_def


lemmas hc_defs = hc_loaded_def hc_nodes_def no_node_def


lemmas nav_defs = gogame_move_forward_def gogame_move_forward_update_def gogame_move_back_def
  gogame_move_back_update_def gogame_moveVar_down_def gogame_moveVar_up_def moveVar_def
  gogame_move_to_nextEvt_def gogame_move_to_prevEvt_def gogame_move_to_page_def

lemmas step_defs = gogame_move_forward_def gogame_move_forward_update_def gogame_move_back_def
  gogame_move_back_update_def undo_step_def apply_sgf_cmds_to_board_def updateCommentStr_def
  board_placeStone_def board_placeMarker_def sgfGetCharProperty_def node_cmds_def
  List.map_filter_simps

lemma prop_call_eq:
  "prop_call p b = (case prop_cmd p of None \<Rightarrow> b | Some c \<Rightarrow> c # b)"
  by (cases p) (simp add: board_placeStone_def board_placeMarker_def)

lemma fold_prop_call: "fold prop_call ps b = rev (List.map_filter prop_cmd ps) @ b"
proof (induction ps arbitrary: b)
  case Nil
  show ?case by (simp add: List.map_filter_simps)
next
  case (Cons p ps)
  have "fold prop_call (p # ps) b = rev (List.map_filter prop_cmd ps) @ prop_call p b"
    by (simp add: Cons.IH)
  then show ?case
    by (cases "prop_cmd p") (simp_all add: prop_call_eq [of p b] List.map_filter_simps)
qed

lemma updateCommentStr_eq:
  "gameTree s = Some r \<Longrightarrow> curNode s = Some c \<Longrightarrow>
   updateCommentStr s =
     Inr (s\<lparr>comment_str := sgfGetCharProperty (nodes s c) ''C '',
            comment_update :=
              (sgfGetCharProperty (nodes s c) ''C '' \<noteq> None \<or> comment_str s \<noteq> None)\<rparr>)"
  by (auto simp add: updateCommentStr_def split: option.splits)

lemma apply_eq:
  "gameTree s = Some r \<Longrightarrow> curNode s = Some c \<Longrightarrow>
   apply_sgf_cmds_to_board s =
     Inr (s\<lparr>board := rev (node_cmds (nodes s c)) @ board s, calls := Apply # calls s\<rparr>)"
  by (simp add: apply_sgf_cmds_to_board_def fold_prop_call node_cmds_def)







section \<open>The two loops of the variation switch\<close>



lemma frames_of_simps:
  "frames_of h [] = []"
  "frames_of h (n # ps) = rev (node_cmds (h n)) @ frames_of h ps"
  "frames_of h (ps @ qs) = frames_of h ps @ frames_of h qs"
  by (simp_all add: frames_of_def)






section \<open>Loops of single steps\<close>



section \<open>The event skips and the page jump along a path\<close>









lemma updateCommentStr_frame:
  assumes "updateCommentStr s = Inr s'"
  shows "curNode s' = curNode s \<and> board s' = board s \<and> calls s' = calls s \<and>
    nodes s' = nodes s \<and> gameTree s' = gameTree s \<and>
    bShowFullScreenComment s' = bShowFullScreenComment s"
  using assms by (auto simp add: updateCommentStr_def split: if_splits option.splits)


section \<open>Well-formed trees\<close>














section \<open>Steps that keep the board consistent\<close>

lemma board_state_frames:
  "board_state (frames_of h ps) = concat (map (\<lambda>n. node_cmds (h n)) (rev ps))"
  by (induction ps) (simp_all add: frames_of_simps board_state_def)

lemma projection_okI:
  assumes "gameTree s = Some r" and "nodes s = h" and "curNode s = Some c" and "c \<in> set ns"
    and "ptr_path parent h c ps" and "last ps = r" and "list_all (one_frame h) ps"
    and "board s = frames_of h ps"
  shows "projection_ok h r ns s"
proof -
  have "board_state (board s) = concat (map (\<lambda>n. node_cmds (h n)) (rev ps))"
    unfolding assms(8) by (rule board_state_frames)
  with assms(3-8) have "\<exists>c ps. curNode s = Some c \<and> c \<in> set ns \<and> ptr_path parent h c ps \<and>
      last ps = r \<and> list_all (one_frame h) ps \<and> board s = frames_of h ps \<and>
      board_state (board s) = concat (map (\<lambda>n. node_cmds (h n)) (rev ps))"
    by (intro exI [of _ c] exI [of _ ps]) simp
  with assms(1,2) show ?thesis unfolding projection_ok_def by simp
qed


lemma projection_ok_cong:
  assumes "projection_ok h r ns s" and "gameTree s' = gameTree s" and "nodes s' = nodes s"
    and "curNode s' = curNode s" and "board s' = board s"
  shows "projection_ok h r ns s'"
  using assms unfolding projection_ok_def by simp

lemma projection_ok_refresh:
  assumes "projection_ok h r ns s" and "updateCommentStr s = Inr s'"
  shows "projection_ok h r ns s'"
  using updateCommentStr_frame [OF assms(2)] by (intro projection_ok_cong [OF assms(1)]) simp_all







section \<open>The variation chain\<close>







section \<open>Every operation keeps the board consistent\<close>






lemma load_ok:
  assumes "r \<in> set ns" and "parent (h r) = None" and "one_frame_nodes h ns"
    and "gogame_new_from_file (Some (h, r)) s0 = Inr (rc, s)"
  shows "rc = 0 \<and> projection_ok h r ns s"
proof -
  define s1 where "s1 = (gogame_cleanup s0)\<lparr>gameTree := Some r, nodes := h, curNode := Some r,
        board := board_new\<rparr>"
  define s2 where "s2 = s1\<lparr>board := rev (node_cmds (nodes s1 r)) @ board s1,
        calls := Apply # calls s1\<rparr>"
  have s1: "gameTree s1 = Some r" "curNode s1 = Some r" by (simp_all add: s1_def)
  have s2: "gameTree s2 = Some r" "curNode s2 = Some r" by (simp_all add: s2_def s1_def)
  from updateCommentStr_eq [OF s2] obtain s3 where s3: "updateCommentStr s2 = Inr s3" by blast
  have "gogame_new_from_file (Some (h, r)) s0 = Inr (0, s3\<lparr>bShowFullScreenComment := False\<rparr>)"
    using apply_eq [OF s1] s3 by (simp add: gogame_new_from_file_def s1_def s2_def)
  with assms(4) have rc: "rc = 0" and s: "s = s3\<lparr>bShowFullScreenComment := False\<rparr>" by simp_all
  have "one_frame h r" using assms(1,3) by (simp add: one_frame_nodes_def list_all_iff)
  then have "projection_ok h r ns s2"
    using assms(1,2) by (intro projection_okI [where c = r and ps = "[r]"])
      (simp_all add: s2_def s1_def board_new_def frames_of_simps)
  then have "projection_ok h r ns s3" using s3 by (rule projection_ok_refresh)
  then have "projection_ok h r ns s" by (rule projection_ok_cong) (simp_all add: s)
  with rc show ?thesis by simp
qed

section \<open>The small records are well formed\<close>







section \<open>C1: projection consistency\<close>




section \<open>C2: the variation switch\<close>




section \<open>C3: the result of the page jump\<close>




section \<open>C4: the comment cache\<close>

text \<open>
  C4, as the claim states it, fails: refreshing on node 4 of the small record, whose
  comment is already the cached one, sets the dirty flag instead of clearing it.
\<close>

theorem refresh_equal_counterexample:
  "curNode (ex_loaded\<lparr>curNode := Some 4, comment_str := Some ''good move''\<rparr>) = Some 4
   \<and> sgfGetCharProperty
        (nodes (ex_loaded\<lparr>curNode := Some 4, comment_str := Some ''good move''\<rparr>) 4) ''C ''
       = comment_str (ex_loaded\<lparr>curNode := Some 4, comment_str := Some ''good move''\<rparr>)
   \<and> updateCommentStr (ex_loaded\<lparr>curNode := Some 4, comment_str := Some ''good move''\<rparr>)
       = Inr (ex_loaded\<lparr>curNode := Some 4, comment_str := Some ''good move'',
                comment_update := True\<rparr>)"
  by (simp add: ex_defs updateCommentStr_def sgfGetCharProperty_def)

text \<open>
  C4, amended: with a record loaded and the cursor on a node, \<open>updateCommentStr\<close> stores
  the annotation of the current node in the cache, and it clears the dirty flag exactly
  when the node has no annotation and the cache was empty; in every other case, also
  when the annotation equals the cached one, it sets the flag.
\<close>

theorem refresh_sets_dirty:
  "gameTree s = Some r \<Longrightarrow> curNode s = Some c \<Longrightarrow>
   updateCommentStr s =
     Inr (s\<lparr>comment_str := sgfGetCharProperty (nodes s c) ''C '',
            comment_update :=
              (sgfGetCharProperty (nodes s c) ''C '' \<noteq> None \<or> comment_str s \<noteq> None)\<rparr>)"
  by (auto simp add: updateCommentStr_def split: option.splits)

theorem refresh_sets_dirty_witness:
  "gameTree ex_loaded = Some 0 \<and> curNode ex_loaded = Some 0
   \<and> updateCommentStr ex_loaded = Inr ex_loaded"
proof -
  have h: "gameTree ex_loaded = Some 0" "curNode ex_loaded = Some 0"
    by (simp_all add: ex_defs)
  from refresh_sets_dirty [OF h] h show ?thesis
    by (simp add: ex_defs sgfGetCharProperty_def)
qed

section \<open>C5: stepping back\<close>

text \<open>
  C5, as the claim states it, fails: in the record with a handicap stone the board holds
  the added stone of the root right after loading, so \<open>undo\<close> succeeds on the root,
  which has no parent; the raw step \<open>gogame_move_back_update(0)\<close> then returns normally
  with the cursor \<open>NULL\<close>.
\<close>

theorem back_at_root_counterexample:
  "gogame_new_from_file (Some (hc_nodes, 0)) ex_empty = Inr (0, hc_loaded)
   \<and> parent (nodes hc_loaded 0) = None \<and> curNode hc_loaded = Some 0
   \<and> board_undo (board hc_loaded) = (True, [])
   \<and> gogame_move_back_update False hc_loaded
        = Inr (hc_loaded\<lparr>curNode := None, board := [], calls := [Undo, Apply]\<rparr>)"
  by (simp add: hc_defs ex_empty_def step_defs gogame_new_from_file_def gogame_cleanup_def
      board_new_def)

text \<open>
  C5, amended: \<open>gogame_move_back_update\<close> has no check of its own.  When \<open>undo\<close>
  succeeds and the current node has a parent, it returns with the cursor on that parent.
  When \<open>undo\<close> succeeds and the current node has no parent, the public
  \<open>gogame_move_back\<close> aborts on the assertion of \<open>updateCommentStr\<close> that the cursor is
  not \<open>NULL\<close>.
\<close>

theorem back_parent_or_abort:
  "gameTree s = Some r \<Longrightarrow> \<not> bShowFullScreenComment s \<Longrightarrow> curNode s = Some c \<Longrightarrow>
   fst (board_undo (board s)) \<Longrightarrow>
   (parent (nodes s c) = None \<longrightarrow> gogame_move_back s = Inl AssertionFailed) \<and>
   (\<forall>p. parent (nodes s c) = Some p \<longrightarrow>
      (\<exists>s'. gogame_move_back_update bUpdate s = Inr s' \<and> curNode s' = Some p))"
  by (cases "board_undo (board s)") (auto simp add: step_defs split: option.splits)

theorem back_parent_or_abort_witness:
  "gameTree hc_loaded = Some 0 \<and> \<not> bShowFullScreenComment hc_loaded
   \<and> curNode hc_loaded = Some 0 \<and> fst (board_undo (board hc_loaded))
   \<and> parent (nodes hc_loaded 0) = None \<and> gogame_move_back hc_loaded = Inl AssertionFailed"
proof -
  have h: "gameTree hc_loaded = Some 0" "\<not> bShowFullScreenComment hc_loaded"
    "curNode hc_loaded = Some 0" "fst (board_undo (board hc_loaded))"
    and p: "parent (nodes hc_loaded 0) = None"
    by (simp_all add: hc_defs)
  from back_parent_or_abort [OF h, of True] p h show ?thesis by simp
qed

section \<open>C6: forward and back\<close>




section \<open>C7: the event skips\<close>




section \<open>C8: jumping twice\<close>



section \<open>C9: no record loaded\<close>

text \<open>
  C9: when no record is loaded, every public navigation operation returns at once with
  the state unchanged (so no primitive call is logged), and \<open>gogame_move_to_page\<close>
  returns 0.
\<close>

theorem no_record_noop:
  "gameTree s = None \<Longrightarrow>
   run_op opn s = Some (Inr s) \<and> gogame_move_to_page page s = Some (Inr (False, s))"
  by (cases opn) (simp_all add: nav_defs)

theorem no_record_noop_witness:
  "gameTree ex_empty = None \<and> run_op NextEvt ex_empty = Some (Inr ex_empty)
     \<and> gogame_move_to_page 3 ex_empty = Some (Inr (False, ex_empty))"
proof -
  have h: "gameTree ex_empty = None" by (simp add: ex_empty_def)
  from no_record_noop [OF h, of NextEvt 3] h show ?thesis by simp
qed

section \<open>C10: the full-screen comment\<close>

text \<open>
  C10: while the full-screen-comment flag is set, every navigation operation returns
  the state unchanged: the cursor, the board and the comment cache stay as they are.
\<close>

theorem fullscreen_noop:
  "bShowFullScreenComment s \<Longrightarrow>
   run_op opn s = Some (Inr s) \<and> gogame_move_to_page page s = Some (Inr (False, s))"
  by (cases opn) (simp_all add: nav_defs)

theorem fullscreen_noop_witness:
  "bShowFullScreenComment (ex_loaded\<lparr>bShowFullScreenComment := True\<rparr>)
   \<and> run_op VarDown (ex_loaded\<lparr>bShowFullScreenComment := True\<rparr>)
        = Some (Inr (ex_loaded\<lparr>bShowFullScreenComment := True\<rparr>))
   \<and> gogame_move_to_page 2 (ex_loaded\<lparr>bShowFullScreenComment := True\<rparr>)
        = Some (Inr (False, ex_loaded\<lparr>bShowFullScreenComment := True\<rparr>))"
proof -
  have h: "bShowFullScreenComment (ex_loaded\<lparr>bShowFullScreenComment := True\<rparr>)" by simp
  from fullscreen_noop [OF h, of VarDown 2] h show ?thesis by simp
qed

end
